theory Spec2Isabelle
  imports Complex_Main "HOL-Library.Word" "HOL-Library.Multiset"
begin

section \<open>The triangle batcher of the box-swarm demos\<close>

text \<open>
  The development embeds the transform stack and the triangle batch of
  \<^verbatim>\<open>src/unnamed/part_001\<close> (``part 008-alt''): \<^verbatim>\<open>push\<close>, \<^verbatim>\<open>pop\<close>,
  \<^verbatim>\<open>apply\<close>, \<^verbatim>\<open>addTriangle\<close>, \<^verbatim>\<open>flush\<close> and the bounding boxes. The
  \<^verbatim>\<open>flush\<close> and \<^verbatim>\<open>addTriangle\<close> of the earlier \<^verbatim>\<open>src/unnamed/part_002\<close>
  (``part 007'') are embedded beside them, under the suffix \<open>_007\<close>.

  Field names of the C++ structs are prefixed (\<open>vx\<close> for \<^verbatim>\<open>Vector::x\<close>, \<open>mx\<close> for
  \<^verbatim>\<open>Matrix::x\<close>, \<open>px\<close> for \<^verbatim>\<open>Vertex::x\<close>, \<open>red\<close> for \<^verbatim>\<open>Color::r\<close>), since a
  record field is a constant of the theory.
\<close>

subsection \<open>The type \<^verbatim>\<open>float\<close>\<close>

text \<open>
  A \<^verbatim>\<open>float\<close> is a not-a-number, an infinity or a finite number. The comparisons
  are those of IEEE 754: every ordered comparison with a NaN is false, \<^verbatim>\<open>==\<close> with a
  NaN is false and \<^verbatim>\<open>!=\<close> with a NaN is true. Finite arithmetic is exact: rounding,
  overflow and the sign of zero are not modelled. No property below depends on the
  value of a sum, product or quotient, except at inputs where the float operation is
  exact as well.
\<close>

datatype float = NaN | NegInf | Finite real | PosInf

fun flt :: "float \<Rightarrow> float \<Rightarrow> bool" where
  "flt (Finite a) (Finite b) = (a < b)"
| "flt NegInf (Finite b) = True"
| "flt NegInf PosInf = True"
| "flt (Finite a) PosInf = True"
| "flt _ _ = False"

definition feq :: "float \<Rightarrow> float \<Rightarrow> bool" where
  "feq a b = (a \<noteq> NaN \<and> a = b)"

definition fne :: "float \<Rightarrow> float \<Rightarrow> bool" where
  "fne a b = (\<not> feq a b)"

definition fle :: "float \<Rightarrow> float \<Rightarrow> bool" where
  "fle a b = (flt a b \<or> feq a b)"

definition fgt :: "float \<Rightarrow> float \<Rightarrow> bool" where
  "fgt a b = flt b a"

fun fneg :: "float \<Rightarrow> float" where
  "fneg NaN = NaN"
| "fneg NegInf = PosInf"
| "fneg PosInf = NegInf"
| "fneg (Finite a) = Finite (- a)"

fun fadd :: "float \<Rightarrow> float \<Rightarrow> float" where
  "fadd (Finite a) (Finite b) = Finite (a + b)"
| "fadd NaN _ = NaN"
| "fadd _ NaN = NaN"
| "fadd PosInf NegInf = NaN"
| "fadd NegInf PosInf = NaN"
| "fadd PosInf _ = PosInf"
| "fadd _ PosInf = PosInf"
| "fadd NegInf _ = NegInf"
| "fadd _ NegInf = NegInf"

text \<open>The product of an infinity and a number that is not a NaN.\<close>

definition inf_times :: "bool \<Rightarrow> float \<Rightarrow> float" where
  "inf_times positive b =
     (if flt (Finite 0) b then (if positive then PosInf else NegInf)
      else if flt b (Finite 0) then (if positive then NegInf else PosInf)
      else NaN)"

fun fmul :: "float \<Rightarrow> float \<Rightarrow> float" where
  "fmul (Finite a) (Finite b) = Finite (a * b)"
| "fmul NaN _ = NaN"
| "fmul _ NaN = NaN"
| "fmul PosInf b = inf_times True b"
| "fmul NegInf b = inf_times False b"
| "fmul a PosInf = inf_times True a"
| "fmul a NegInf = inf_times False a"

text \<open>
  Division reports a zero divisor as \<open>None\<close>: the quotient of IEEE 754 is then an
  infinity or a NaN whose sign depends on the sign of the zero.
\<close>

fun fdiv :: "float \<Rightarrow> float \<Rightarrow> float option" where
  "fdiv a (Finite b) =
     (if b = 0 then None
      else Some (case a of Finite c \<Rightarrow> Finite (c / b)
                 | NaN \<Rightarrow> NaN
                 | PosInf \<Rightarrow> inf_times True (Finite b)
                 | NegInf \<Rightarrow> inf_times False (Finite b)))"
| "fdiv a NaN = Some NaN"
| "fdiv (Finite c) _ = Some (Finite 0)"
| "fdiv _ _ = Some NaN"

text \<open>\<^verbatim>\<open>std::min(a, b)\<close> is \<^verbatim>\<open>(b < a) ? b : a\<close> and \<^verbatim>\<open>std::max(a, b)\<close> is
  \<^verbatim>\<open>(a < b) ? b : a\<close>.\<close>

definition std_min :: "float \<Rightarrow> float \<Rightarrow> float" where
  "std_min a b = (if flt b a then b else a)"

definition std_max :: "float \<Rightarrow> float \<Rightarrow> float" where
  "std_max a b = (if flt a b then b else a)"

subsection \<open>Errors\<close>

text \<open>
  \<^verbatim>\<open>panic\<close> and \<^verbatim>\<open>sdlError\<close> print a message and leave the process with
  \<^verbatim>\<open>std::exit(1)\<close>: a function that may reach them returns a sum, \<open>Inl\<close> the
  error. \<open>DivisionByZero\<close> is the report of \<open>fdiv\<close>.
\<close>

datatype error = Panic string | SdlError string | DivisionByZero

definition panic :: "string \<Rightarrow> error + 'a" where
  "panic message = Inl (Panic message)"

definition sdlError :: "string \<Rightarrow> error + 'a" where
  "sdlError tag = Inl (SdlError tag)"

definition assertThat :: "bool \<Rightarrow> error + unit" where
  "assertThat condition = (if \<not> condition then panic ''ASSERTION FAILED'' else Inr ())"

definition WIDTH :: float where
  "WIDTH = Finite 800"

definition HEIGHT :: float where
  "HEIGHT = Finite 600"

subsection \<open>Colors, vectors and matrices\<close>

record Color =
  red :: "8 word"
  green :: "8 word"
  blue :: "8 word"
  alpha :: "8 word"

definition BLACK :: Color where
  "BLACK = \<lparr>red = 0, green = 0, blue = 0, alpha = 255\<rparr>"

definition WHITE :: Color where
  "WHITE = \<lparr>red = 255, green = 241, blue = 232, alpha = 255\<rparr>"

definition PEACH :: Color where
  "PEACH = \<lparr>red = 255, green = 157, blue = 129, alpha = 255\<rparr>"

record Vector =
  vx :: float
  vy :: float
  vz :: float
  vw :: float

definition dot :: "Vector \<Rightarrow> Vector \<Rightarrow> float" where
  "dot lhs rhs =
     fadd (fadd (fadd (fmul (vx lhs) (vx rhs)) (fmul (vy lhs) (vy rhs)))
                (fmul (vz lhs) (vz rhs)))
          (fmul (vw lhs) (vw rhs))"

definition minPairwise :: "Vector \<Rightarrow> Vector \<Rightarrow> Vector" where
  "minPairwise lhs rhs =
     \<lparr>vx = std_min (vx lhs) (vx rhs), vy = std_min (vy lhs) (vy rhs),
      vz = std_min (vz lhs) (vz rhs), vw = std_min (vw lhs) (vw rhs)\<rparr>"

definition maxPairwise :: "Vector \<Rightarrow> Vector \<Rightarrow> Vector" where
  "maxPairwise lhs rhs =
     \<lparr>vx = std_max (vx lhs) (vx rhs), vy = std_max (vy lhs) (vy rhs),
      vz = std_max (vz lhs) (vz rhs), vw = std_max (vw lhs) (vw rhs)\<rparr>"

record Matrix =
  mx :: Vector
  my :: Vector
  mz :: Vector
  mw :: Vector

definition xColumn :: "Matrix \<Rightarrow> Vector" where
  "xColumn m = \<lparr>vx = vx (mx m), vy = vx (my m), vz = vx (mz m), vw = vx (mw m)\<rparr>"

definition yColumn :: "Matrix \<Rightarrow> Vector" where
  "yColumn m = \<lparr>vx = vy (mx m), vy = vy (my m), vz = vy (mz m), vw = vy (mw m)\<rparr>"

definition zColumn :: "Matrix \<Rightarrow> Vector" where
  "zColumn m = \<lparr>vx = vz (mx m), vy = vz (my m), vz = vz (mz m), vw = vz (mw m)\<rparr>"

definition wColumn :: "Matrix \<Rightarrow> Vector" where
  "wColumn m = \<lparr>vx = vw (mx m), vy = vw (my m), vz = vw (mz m), vw = vw (mw m)\<rparr>"

text \<open>\<^verbatim>\<open>operator*(const Matrix &, const Vector &)\<close>\<close>

definition mat_vec :: "Matrix \<Rightarrow> Vector \<Rightarrow> Vector" where
  "mat_vec lhs rhs =
     \<lparr>vx = dot (mx lhs) rhs, vy = dot (my lhs) rhs,
      vz = dot (mz lhs) rhs, vw = dot (mw lhs) rhs\<rparr>"

text \<open>\<^verbatim>\<open>operator*(const Matrix &, const Matrix &)\<close>\<close>

definition mat_row :: "Vector \<Rightarrow> Matrix \<Rightarrow> Vector" where
  "mat_row row rhs =
     \<lparr>vx = dot row (xColumn rhs), vy = dot row (yColumn rhs),
      vz = dot row (zColumn rhs), vw = dot row (wColumn rhs)\<rparr>"

definition mat_mul :: "Matrix \<Rightarrow> Matrix \<Rightarrow> Matrix" where
  "mat_mul lhs rhs =
     \<lparr>mx = mat_row (mx lhs) rhs, my = mat_row (my lhs) rhs,
      mz = mat_row (mz lhs) rhs, mw = mat_row (mw lhs) rhs\<rparr>"

definition vec4 :: "real \<Rightarrow> real \<Rightarrow> real \<Rightarrow> real \<Rightarrow> Vector" where
  "vec4 a b c d = \<lparr>vx = Finite a, vy = Finite b, vz = Finite c, vw = Finite d\<rparr>"

definition scaling :: "float \<Rightarrow> float \<Rightarrow> float \<Rightarrow> Matrix" where
  "scaling x y z =
     \<lparr>mx = \<lparr>vx = x, vy = Finite 0, vz = Finite 0, vw = Finite 0\<rparr>,
      my = \<lparr>vx = Finite 0, vy = y, vz = Finite 0, vw = Finite 0\<rparr>,
      mz = \<lparr>vx = Finite 0, vy = Finite 0, vz = z, vw = Finite 0\<rparr>,
      mw = \<lparr>vx = Finite 0, vy = Finite 0, vz = Finite 0, vw = Finite 1\<rparr>\<rparr>"

definition IDENTITY :: Matrix where
  "IDENTITY = \<lparr>mx = vec4 1 0 0 0, my = vec4 0 1 0 0, mz = vec4 0 0 1 0, mw = vec4 0 0 0 1\<rparr>"

subsection \<open>The render state and its stack\<close>

record RenderState =
  transform :: Matrix
  fillColor :: Color
  strokeColor :: Color

record Vertex =
  px :: float
  py :: float
  pz :: float
  color :: Color
  tu :: float
  tv :: float

text \<open>\<^verbatim>\<open>Vertex vertices[3]\<close>\<close>

datatype Triangle = Triangle Vertex Vertex Vertex

fun vertices :: "Triangle \<Rightarrow> Vertex list" where
  "vertices (Triangle p q r) = [p, q, r]"

text \<open>
  The globals of the program. \<open>stack\<close> is the \<^verbatim>\<open>std::vector\<close> of saved states, its
  back the last element of the list. \<open>drawCalls\<close> is not a variable of the program:
  it records, oldest first, the vertex data of every call of
  \<^verbatim>\<open>SDL_RenderGeometryRaw\<close>.
\<close>

record world =
  state :: RenderState
  stack :: "RenderState list"
  triangles :: "Triangle list"
  reverseSortTriangles :: bool
  drawCalls :: "Triangle list list"

definition initial_world :: world where
  "initial_world =
     \<lparr>state = \<lparr>transform = IDENTITY, fillColor = WHITE, strokeColor = BLACK\<rparr>,
      stack = [], triangles = [], reverseSortTriangles = False, drawCalls = []\<rparr>"

definition push :: "world \<Rightarrow> world" where
  "push s = s\<lparr>stack := stack s @ [state s]\<rparr>"

definition pop :: "world \<Rightarrow> error + world" where
  "pop s =
     (case assertThat (length (stack s) \<noteq> 0) of
        Inl e \<Rightarrow> Inl e
      | Inr _ \<Rightarrow> Inr (s\<lparr>state := last (stack s), stack := butlast (stack s)\<rparr>))"

definition apply_matrix :: "Matrix \<Rightarrow> world \<Rightarrow> world" where
  "apply_matrix matrix s =
     s\<lparr>state := (state s)\<lparr>transform := mat_mul (transform (state s)) matrix\<rparr>\<rparr>"

subsection \<open>Bounding boxes\<close>

record AABB =
  box_min :: Vector
  box_max :: Vector

definition AABB_BOTTOM :: AABB where
  "AABB_BOTTOM =
     \<lparr>box_min = \<lparr>vx = PosInf, vy = PosInf, vz = PosInf, vw = PosInf\<rparr>,
      box_max = \<lparr>vx = NegInf, vy = NegInf, vz = NegInf, vw = NegInf\<rparr>\<rparr>"

definition AABB_TOP :: AABB where
  "AABB_TOP =
     \<lparr>box_min = \<lparr>vx = NegInf, vy = NegInf, vz = NegInf, vw = NegInf\<rparr>,
      box_max = \<lparr>vx = PosInf, vy = PosInf, vz = PosInf, vw = PosInf\<rparr>\<rparr>"

text \<open>\<^verbatim>\<open>operator|\<close> and \<^verbatim>\<open>operator&\<close> on boxes\<close>

definition aabb_or :: "AABB \<Rightarrow> AABB \<Rightarrow> AABB" where
  "aabb_or lhs rhs =
     \<lparr>box_min = minPairwise (box_min lhs) (box_min rhs),
      box_max = maxPairwise (box_max lhs) (box_max rhs)\<rparr>"

definition aabb_and :: "AABB \<Rightarrow> AABB \<Rightarrow> AABB" where
  "aabb_and lhs rhs =
     \<lparr>box_min = maxPairwise (box_min lhs) (box_min rhs),
      box_max = minPairwise (box_max lhs) (box_max rhs)\<rparr>"

text \<open>A vector, or a box, none of whose components is a NaN.\<close>

definition vector_ordinary :: "Vector \<Rightarrow> bool" where
  "vector_ordinary v = (vx v \<noteq> NaN \<and> vy v \<noteq> NaN \<and> vz v \<noteq> NaN \<and> vw v \<noteq> NaN)"

definition aabb_ordinary :: "AABB \<Rightarrow> bool" where
  "aabb_ordinary a = (vector_ordinary (box_min a) \<and> vector_ordinary (box_max a))"

subsection \<open>Triangle submission\<close>

text \<open>
  \<^verbatim>\<open>perspectiveDivide\<close> divides \<open>x\<close>, \<open>y\<close> and \<open>z\<close> by \<open>w\<close> and sets \<open>w\<close> to 1. It
  passes on the report of a zero divisor, and \<^verbatim>\<open>addTriangle\<close> stops at such a
  report. The source has no branch for it; \<open>addTriangle_never_divides_by_zero\<close>
  below shows that \<^verbatim>\<open>addTriangle\<close> never takes it.
\<close>

definition perspectiveDivide :: "Vector \<Rightarrow> error + Vector" where
  "perspectiveDivide v =
     (case fdiv (vx v) (vw v) of None \<Rightarrow> Inl DivisionByZero | Some x \<Rightarrow>
     (case fdiv (vy v) (vw v) of None \<Rightarrow> Inl DivisionByZero | Some y \<Rightarrow>
     (case fdiv (vz v) (vw v) of None \<Rightarrow> Inl DivisionByZero | Some z \<Rightarrow>
        Inr \<lparr>vx = x, vy = y, vz = z, vw = Finite 1\<rparr>)))"

definition addTriangle ::
  "Color \<Rightarrow> Vector \<Rightarrow> Vector \<Rightarrow> Vector \<Rightarrow> float \<Rightarrow> float \<Rightarrow> float \<Rightarrow> float \<Rightarrow> float \<Rightarrow> float \<Rightarrow>
   world \<Rightarrow> error + (AABB \<times> world)" where
  "addTriangle col ia ib ic u1 v1 u2 v2 u3 v3 s =
     (let a = mat_vec (transform (state s)) ia;
          b = mat_vec (transform (state s)) ib;
          c = mat_vec (transform (state s)) ic
      in if fle (vw a) (Finite 0) \<or> fle (vw b) (Finite 0) \<or> fle (vw c) (Finite 0)
         then Inr (AABB_BOTTOM, s)
         else
           (case perspectiveDivide a of Inl e \<Rightarrow> Inl e | Inr a \<Rightarrow>
           (case perspectiveDivide b of Inl e \<Rightarrow> Inl e | Inr b \<Rightarrow>
           (case perspectiveDivide c of Inl e \<Rightarrow> Inl e | Inr c \<Rightarrow>
             if flt (vx a) (Finite 0) \<and> flt (vx b) (Finite 0) \<and> flt (vx c) (Finite 0)
             then Inr (AABB_BOTTOM, s)
             else if fgt (vx a) WIDTH \<and> fgt (vx b) WIDTH \<and> fgt (vx c) WIDTH
             then Inr (AABB_BOTTOM, s)
             else if flt (vy a) (Finite 0) \<and> flt (vy b) (Finite 0) \<and> flt (vy c) (Finite 0)
             then Inr (AABB_BOTTOM, s)
             else if fgt (vy a) HEIGHT \<and> fgt (vy b) HEIGHT \<and> fgt (vy c) HEIGHT
             then Inr (AABB_BOTTOM, s)
             else Inr
               (\<lparr>box_min = minPairwise a (minPairwise b c),
                 box_max = maxPairwise a (maxPairwise b c)\<rparr>,
                s\<lparr>triangles := triangles s @
                   [Triangle
                      \<lparr>px = vx a, py = vy a, pz = vz a, color = col, tu = u1, tv = v1\<rparr>
                      \<lparr>px = vx b, py = vy b, pz = vz b, color = col, tu = u2, tv = v2\<rparr>
                      \<lparr>px = vx c, py = vy c, pz = vz c, color = col, tu = u3, tv = v3\<rparr>]\<rparr>)))))"

text \<open>
  The \<^verbatim>\<open>addTriangle\<close> of part 007 has the same body, takes the colour from
  \<^verbatim>\<open>state.fillColor\<close> and returns nothing.
\<close>

definition addTriangle_007 ::
  "Vector \<Rightarrow> Vector \<Rightarrow> Vector \<Rightarrow> float \<Rightarrow> float \<Rightarrow> float \<Rightarrow> float \<Rightarrow> float \<Rightarrow> float \<Rightarrow>
   world \<Rightarrow> error + world" where
  "addTriangle_007 ia ib ic u1 v1 u2 v2 u3 v3 s =
     (let a = mat_vec (transform (state s)) ia;
          b = mat_vec (transform (state s)) ib;
          c = mat_vec (transform (state s)) ic
      in if fle (vw a) (Finite 0) \<or> fle (vw b) (Finite 0) \<or> fle (vw c) (Finite 0)
         then Inr s
         else
           (case perspectiveDivide a of Inl e \<Rightarrow> Inl e | Inr a \<Rightarrow>
           (case perspectiveDivide b of Inl e \<Rightarrow> Inl e | Inr b \<Rightarrow>
           (case perspectiveDivide c of Inl e \<Rightarrow> Inl e | Inr c \<Rightarrow>
             if flt (vx a) (Finite 0) \<and> flt (vx b) (Finite 0) \<and> flt (vx c) (Finite 0)
             then Inr s
             else if fgt (vx a) WIDTH \<and> fgt (vx b) WIDTH \<and> fgt (vx c) WIDTH
             then Inr s
             else if flt (vy a) (Finite 0) \<and> flt (vy b) (Finite 0) \<and> flt (vy c) (Finite 0)
             then Inr s
             else if fgt (vy a) HEIGHT \<and> fgt (vy b) HEIGHT \<and> fgt (vy c) HEIGHT
             then Inr s
             else Inr
               (s\<lparr>triangles := triangles s @
                   [Triangle
                      \<lparr>px = vx a, py = vy a, pz = vz a, color = fillColor (state s),
                       tu = u1, tv = v1\<rparr>
                      \<lparr>px = vx b, py = vy b, pz = vz b, color = fillColor (state s),
                       tu = u2, tv = v2\<rparr>
                      \<lparr>px = vx c, py = vy c, pz = vz c, color = fillColor (state s),
                       tu = u3, tv = v3\<rparr>]\<rparr>)))))"

subsection \<open>Sorting and flushing\<close>

text \<open>
  \<^verbatim>\<open>std::sort\<close> is library code. Its contract is that the result is a permutation
  of the range, in ascending order of the comparison, provided the comparison is a
  strict weak ordering of the elements; the order of equivalent elements is left
  open. The model is insertion sort, and the properties proved of a flush use the
  contract only.
\<close>

fun insert_before :: "('a \<Rightarrow> 'a \<Rightarrow> bool) \<Rightarrow> 'a \<Rightarrow> 'a list \<Rightarrow> 'a list" where
  "insert_before lt x [] = [x]"
| "insert_before lt x (y # ys) =
     (if lt y x then y # insert_before lt x ys else x # y # ys)"

fun std_sort :: "('a \<Rightarrow> 'a \<Rightarrow> bool) \<Rightarrow> 'a list \<Rightarrow> 'a list" where
  "std_sort lt [] = []"
| "std_sort lt (x # xs) = insert_before lt x (std_sort lt xs)"

text \<open>The comparison of two vertices of one triangle.\<close>

definition vertex_less :: "Vertex \<Rightarrow> Vertex \<Rightarrow> bool" where
  "vertex_less lhs rhs =
     (flt (pz lhs) (pz rhs) \<or>
      (feq (pz lhs) (pz rhs) \<and>
        (flt (py lhs) (py rhs) \<or> (feq (py lhs) (py rhs) \<and> flt (px lhs) (px rhs)))))"

definition sortVertices :: "Triangle \<Rightarrow> Triangle" where
  "sortVertices t =
     (case std_sort vertex_less (vertices t) of
        [p, q, r] \<Rightarrow> Triangle p q r
      | _ \<Rightarrow> t)"

text \<open>
  One \<^verbatim>\<open>for (int i = 0; i < 3; i++)\<close> loop of the comparison of two triangles,
  over one coordinate of the three vertices: \<open>Some\<close> is the \<^verbatim>\<open>return\<close> inside the
  loop, \<open>None\<close> the end of the loop.
\<close>

fun first_difference :: "float list \<Rightarrow> float list \<Rightarrow> bool option" where
  "first_difference (l # ls) (r # rs) =
     (if fne l r then Some (flt l r) else first_difference ls rs)"
| "first_difference _ _ = None"

definition triangle_less :: "Triangle \<Rightarrow> Triangle \<Rightarrow> bool" where
  "triangle_less lhs rhs =
     (case first_difference (map pz (vertices lhs)) (map pz (vertices rhs)) of
        Some result \<Rightarrow> result
      | None \<Rightarrow>
     (case first_difference (map py (vertices lhs)) (map py (vertices rhs)) of
        Some result \<Rightarrow> result
      | None \<Rightarrow>
     (case first_difference (map px (vertices lhs)) (map px (vertices rhs)) of
        Some result \<Rightarrow> result
      | None \<Rightarrow> False)))"

text \<open>The batch after the two sorts, and as \<^verbatim>\<open>flush\<close> hands it to the renderer.\<close>

definition ascending_batch :: "world \<Rightarrow> Triangle list" where
  "ascending_batch s = std_sort triangle_less (map sortVertices (triangles s))"

definition sorted_batch :: "world \<Rightarrow> Triangle list" where
  "sorted_batch s =
     (let ts = ascending_batch s
      in if reverseSortTriangles s then rev ts else ts)"

text \<open>
  The first argument stands for \<^verbatim>\<open>SDL_RenderGeometryRaw\<close>: the status it returns
  for the vertex data it is given.
\<close>

definition flush :: "(Triangle list \<Rightarrow> int) \<Rightarrow> world \<Rightarrow> error + (nat \<times> world)" where
  "flush SDL_RenderGeometryRaw s =
     (if length (triangles s) = 0 then Inr (0, s)
      else
        let ts = sorted_batch s;
            s1 = s\<lparr>triangles := ts, drawCalls := drawCalls s @ [ts]\<rparr>
        in if SDL_RenderGeometryRaw ts \<noteq> 0 then sdlError ''SDL_RenderGeometryRaw''
           else Inr (length ts, s1\<lparr>triangles := []\<rparr>))"

text \<open>
  The \<^verbatim>\<open>flush\<close> of part 007 starts at the sorting, has no reverse flag, and reaches
  \<^verbatim>\<open>triangles.front()\<close> and the call of the renderer whatever the size of the batch.
\<close>

definition flush_007 :: "(Triangle list \<Rightarrow> int) \<Rightarrow> world \<Rightarrow> error + (nat \<times> world)" where
  "flush_007 SDL_RenderGeometryRaw s =
     (let ts = std_sort triangle_less (map sortVertices (triangles s));
          s1 = s\<lparr>triangles := ts, drawCalls := drawCalls s @ [ts]\<rparr>
      in if SDL_RenderGeometryRaw ts \<noteq> 0 then sdlError ''SDL_RenderGeometryRaw''
         else Inr (length ts, s1\<lparr>triangles := []\<rparr>))"

subsection \<open>Lexicographic order of coordinate tuples\<close>

text \<open>
  The order the sorting is meant to produce: tuples of coordinates compared from
  the first component on, the next component deciding only when the earlier ones
  are equal.
\<close>

fun lex_less :: "float list \<Rightarrow> float list \<Rightarrow> bool" where
  "lex_less (a # as) (b # bs) = (flt a b \<or> (feq a b \<and> lex_less as bs))"
| "lex_less _ _ = False"

fun lex_le :: "float list \<Rightarrow> float list \<Rightarrow> bool" where
  "lex_le (a # as) (b # bs) = (flt a b \<or> (feq a b \<and> lex_le as bs))"
| "lex_le [] [] = True"
| "lex_le _ _ = False"

text \<open>The key \<open>(z, y, x)\<close> of a vertex and the key
  \<open>(z0, z1, z2, y0, y1, y2, x0, x1, x2)\<close> of a triangle.\<close>

definition zyx :: "Vertex \<Rightarrow> float list" where
  "zyx v = [pz v, py v, px v]"

definition key9 :: "Triangle \<Rightarrow> float list" where
  "key9 t = map pz (vertices t) @ map py (vertices t) @ map px (vertices t)"

definition triangle_ordinary :: "Triangle \<Rightarrow> bool" where
  "triangle_ordinary t = (NaN \<notin> set (key9 t))"

text \<open>An element whose key has \<open>n\<close> components, none of them a NaN.\<close>

definition keyed :: "('a \<Rightarrow> float list) \<Rightarrow> nat \<Rightarrow> 'a \<Rightarrow> bool" where
  "keyed key n x = (length (key x) = n \<and> NaN \<notin> set (key x))"

definition screen_vertex :: "real \<Rightarrow> real \<Rightarrow> real \<Rightarrow> Color \<Rightarrow> real \<Rightarrow> real \<Rightarrow> Vertex" where
  "screen_vertex x y z col u v =
     \<lparr>px = Finite x, py = Finite y, pz = Finite z, color = col, tu = Finite u, tv = Finite v\<rparr>"

text \<open>A batch of two triangles, neither their vertices nor the triangles in order.\<close>

definition unsorted_world :: world where
  "unsorted_world =
     initial_world\<lparr>triangles :=
       [Triangle (screen_vertex 10 20 9 WHITE 0 0) (screen_vertex 30 20 9 WHITE 0 0)
                 (screen_vertex 10 40 8 WHITE 0 0),
        Triangle (screen_vertex 5 5 3 PEACH 0 0) (screen_vertex 6 4 3 PEACH 0 0)
                 (screen_vertex 7 4 3 PEACH 0 0)]\<rparr>"

subsection \<open>Vocabulary for the properties of a submission\<close>

text \<open>
  The vertex as \<^verbatim>\<open>addTriangle\<close> sees it: transformed by the current transform
  (its \<open>w\<close> positive, or at most zero), then divided by its \<open>w\<close>; the test of the
  four screen boundaries on three divided vertices; the vertex and the box that
  \<^verbatim>\<open>addTriangle\<close> builds from them.
\<close>

definition projected :: "world \<Rightarrow> Vector \<Rightarrow> error + Vector" where
  "projected s v = perspectiveDivide (mat_vec (transform (state s)) v)"

definition in_front :: "world \<Rightarrow> Vector \<Rightarrow> bool" where
  "in_front s v = flt (Finite 0) (vw (mat_vec (transform (state s)) v))"

definition behind_camera :: "world \<Rightarrow> Vector \<Rightarrow> bool" where
  "behind_camera s v = fle (vw (mat_vec (transform (state s)) v)) (Finite 0)"

definition beyond_common_boundary :: "Vector \<Rightarrow> Vector \<Rightarrow> Vector \<Rightarrow> bool" where
  "beyond_common_boundary a b c =
     ((flt (vx a) (Finite 0) \<and> flt (vx b) (Finite 0) \<and> flt (vx c) (Finite 0)) \<or>
      (fgt (vx a) WIDTH \<and> fgt (vx b) WIDTH \<and> fgt (vx c) WIDTH) \<or>
      (flt (vy a) (Finite 0) \<and> flt (vy b) (Finite 0) \<and> flt (vy c) (Finite 0)) \<or>
      (fgt (vy a) HEIGHT \<and> fgt (vy b) HEIGHT \<and> fgt (vy c) HEIGHT))"

definition outside_screen :: "Vector \<Rightarrow> bool" where
  "outside_screen a =
     (flt (vx a) (Finite 0) \<or> fgt (vx a) WIDTH \<or> flt (vy a) (Finite 0) \<or> fgt (vy a) HEIGHT)"

definition vertex_at :: "Vector \<Rightarrow> Color \<Rightarrow> float \<Rightarrow> float \<Rightarrow> Vertex" where
  "vertex_at a col u v = \<lparr>px = vx a, py = vy a, pz = vz a, color = col, tu = u, tv = v\<rparr>"

definition bounds :: "Vector \<Rightarrow> Vector \<Rightarrow> Vector \<Rightarrow> AABB" where
  "bounds a b c =
     \<lparr>box_min = minPairwise a (minPairwise b c), box_max = maxPairwise a (maxPairwise b c)\<rparr>"

text \<open>
  Inputs on which NaNs arise. Under the identity transform a vertex with a NaN
  coordinate is transformed to four NaNs (\<open>0 * NaN\<close> is a NaN) and divided to
  \<open>nan_point\<close>; \<open>nan_box\<close> is the box of three such vertices. Under
  \<^verbatim>\<open>scaling(1, 1, INFINITY)\<close> a vertex with \<open>z = 0\<close> keeps its \<open>x\<close> and \<open>y\<close> and
  gets the depth \<open>INFINITY * 0\<close>, a NaN.
\<close>

definition nan_input :: Vector where
  "nan_input = \<lparr>vx = NaN, vy = Finite 0, vz = Finite 0, vw = Finite 1\<rparr>"

definition nan_point :: Vector where
  "nan_point = \<lparr>vx = NaN, vy = NaN, vz = NaN, vw = Finite 1\<rparr>"

definition nan_box :: AABB where
  "nan_box = \<lparr>box_min = nan_point, box_max = nan_point\<rparr>"

definition nan_triangle :: Triangle where
  "nan_triangle =
     Triangle (vertex_at nan_point WHITE (Finite 0) (Finite 0))
              (vertex_at nan_point WHITE (Finite 0) (Finite 0))
              (vertex_at nan_point WHITE (Finite 0) (Finite 0))"

definition infinite_depth_world :: world where
  "infinite_depth_world =
     initial_world\<lparr>state :=
       \<lparr>transform = scaling (Finite 1) (Finite 1) PosInf, fillColor = WHITE,
        strokeColor = BLACK\<rparr>\<rparr>"

definition nan_depth_point :: "real \<Rightarrow> real \<Rightarrow> Vector" where
  "nan_depth_point x y = \<lparr>vx = Finite x, vy = Finite y, vz = NaN, vw = Finite 1\<rparr>"

definition nan_depth_vertex :: "real \<Rightarrow> real \<Rightarrow> Vertex" where
  "nan_depth_vertex x y = vertex_at (nan_depth_point x y) WHITE (Finite 0) (Finite 0)"

definition descending_triangle :: Triangle where
  "descending_triangle =
     Triangle (nan_depth_vertex 30 300) (nan_depth_vertex 20 200) (nan_depth_vertex 10 100)"

definition far_triangle :: Triangle where
  "far_triangle =
     Triangle (nan_depth_vertex 10 400) (nan_depth_vertex 20 400) (nan_depth_vertex 15 500)"

definition near_triangle :: Triangle where
  "near_triangle =
     Triangle (nan_depth_vertex 10 100) (nan_depth_vertex 20 100) (nan_depth_vertex 15 50)"

section \<open>The transform stack\<close>

text \<open>
  C7. For every current render state and every stack contents, \<open>push\<close> immediately
  followed by \<open>pop\<close> succeeds and gives back the world it started from: the current
  state (transform, fill colour, stroke colour) and the stack of saved states are
  exactly those before the \<open>push\<close>.
\<close>

theorem push_pop_identity: "pop (push s) = Inr s"
  by (simp add: pop_def push_def assertThat_def)

text \<open>
  C8. With a non-empty stack \<open>pop\<close> makes the most recently pushed state the
  current one and removes it from the stack; with an empty stack it is the fatal
  assertion failure, and never a normal return. The failure is therefore out of
  reach whenever the stack is non-empty.
\<close>

theorem pop_restores_or_panics:
  "(stack s \<noteq> [] \<longrightarrow>
      pop s = Inr (s\<lparr>state := last (stack s), stack := butlast (stack s)\<rparr>)) \<and>
   (stack s = [] \<longrightarrow> pop s = Inl (Panic ''ASSERTION FAILED'')) \<and>
   (pop (s\<lparr>stack := saved @ [st]\<rparr>) = Inr (s\<lparr>state := st, stack := saved\<rparr>))"
  by (simp add: pop_def assertThat_def panic_def)

theorem pop_restores_or_panics_witness:
  "pop (initial_world\<lparr>stack := [\<lparr>transform = IDENTITY, fillColor = PEACH, strokeColor = BLACK\<rparr>]\<rparr>) =
     Inr (initial_world\<lparr>state := \<lparr>transform = IDENTITY, fillColor = PEACH, strokeColor = BLACK\<rparr>\<rparr>) \<and>
   pop initial_world = Inl (Panic ''ASSERTION FAILED'')"
  using pop_restores_or_panics [of initial_world "[]" "\<lparr>transform = IDENTITY, fillColor = PEACH, strokeColor = BLACK\<rparr>"]
    pop_restores_or_panics [of "initial_world\<lparr>stack := [\<lparr>transform = IDENTITY, fillColor = PEACH, strokeColor = BLACK\<rparr>]\<rparr>" "[]" "\<lparr>transform = IDENTITY, fillColor = PEACH, strokeColor = BLACK\<rparr>"]
  by (simp add: initial_world_def)


section \<open>Comparisons of floats\<close>

lemma flt_irrefl [simp]: "\<not> flt a a"
  by (cases a) simp_all

lemma flt_asym: "flt a b \<Longrightarrow> \<not> flt b a"
  by (cases a; cases b) simp_all

lemma flt_trans: "flt a b \<Longrightarrow> flt b c \<Longrightarrow> flt a c"
  by (cases a; cases b; cases c) simp_all

lemma flt_trichotomy: "a \<noteq> NaN \<Longrightarrow> b \<noteq> NaN \<Longrightarrow> flt a b \<or> a = b \<or> flt b a"
  by (cases a; cases b) auto

lemma std_min_PosInf_right: "std_min a PosInf = a"
  by (cases a) (simp_all add: std_min_def)

lemma std_max_NegInf_right: "std_max a NegInf = a"
  by (cases a) (simp_all add: std_max_def)

lemma std_min_PosInf_left: "a \<noteq> NaN \<Longrightarrow> std_min PosInf a = a"
  by (cases a) (simp_all add: std_min_def)

lemma std_max_NegInf_left: "a \<noteq> NaN \<Longrightarrow> std_max NegInf a = a"
  by (cases a) (simp_all add: std_max_def)

section \<open>Bounding boxes\<close>

text \<open>
  \<open>AABB_BOTTOM\<close> is a right identity of the union and \<open>AABB_TOP\<close> a right identity
  of the intersection, for every box. They are left identities for every box none of
  whose components is a NaN.
\<close>

lemma aabb_identities:
  "aabb_or a AABB_BOTTOM = a \<and> aabb_and a AABB_TOP = a \<and>
   (aabb_ordinary a \<longrightarrow> aabb_or AABB_BOTTOM a = a \<and> aabb_and AABB_TOP a = a)"
  by (cases a)
     (simp add: aabb_or_def aabb_and_def AABB_BOTTOM_def AABB_TOP_def minPairwise_def
        maxPairwise_def aabb_ordinary_def vector_ordinary_def std_min_PosInf_right
        std_max_NegInf_right std_min_PosInf_left std_max_NegInf_left)

section \<open>Triangle submission\<close>

lemma in_front_not_behind: "in_front s v \<Longrightarrow> \<not> behind_camera s v"
  unfolding in_front_def behind_camera_def fle_def feq_def
  by (cases "vw (mat_vec (transform (state s)) v)") auto

lemma addTriangle_behind:
  "behind_camera s ia \<or> behind_camera s ib \<or> behind_camera s ic \<Longrightarrow>
   addTriangle col ia ib ic u1 v1 u2 v2 u3 v3 s = Inr (AABB_BOTTOM, s)"
  by (auto simp: addTriangle_def behind_camera_def Let_def)

lemma addTriangle_projected:
  assumes "\<not> behind_camera s ia" "\<not> behind_camera s ib" "\<not> behind_camera s ic"
    and "projected s ia = Inr a" "projected s ib = Inr b" "projected s ic = Inr c"
  shows "addTriangle col ia ib ic u1 v1 u2 v2 u3 v3 s =
     (if beyond_common_boundary a b c then Inr (AABB_BOTTOM, s)
      else Inr (bounds a b c,
                s\<lparr>triangles := triangles s @
                   [Triangle (vertex_at a col u1 v1) (vertex_at b col u2 v2) (vertex_at c col u3 v3)]\<rparr>))"
  using assms
  by (simp add: addTriangle_def behind_camera_def projected_def Let_def beyond_common_boundary_def
      bounds_def vertex_at_def)

lemma fdiv_zero_iff: "fdiv x w = None \<longleftrightarrow> w = Finite 0"
  by (cases w; cases x) auto

lemma perspectiveDivide_zero_iff:
  "perspectiveDivide v = Inl e \<longleftrightarrow> (e = DivisionByZero \<and> vw v = Finite 0)"
  by (auto simp: perspectiveDivide_def fdiv_zero_iff split: option.splits)

lemma projected_defined: "\<not> behind_camera s v \<Longrightarrow> \<exists>p. projected s v = Inr p"
proof -
  assume h: "\<not> behind_camera s v"
  have "vw (mat_vec (transform (state s)) v) \<noteq> Finite 0"
    using h by (auto simp: behind_camera_def fle_def feq_def)
  then have "\<And>e. projected s v \<noteq> Inl e"
    by (simp add: projected_def perspectiveDivide_zero_iff)
  then show ?thesis by (cases "projected s v") auto
qed

lemma mat_vec_IDENTITY: "mat_vec IDENTITY (vec4 a b c d) = vec4 a b c d"
  by (simp add: mat_vec_def IDENTITY_def vec4_def dot_def)

lemma perspectiveDivide_one: "perspectiveDivide (vec4 a b c 1) = Inr (vec4 a b c 1)"
  by (simp add: perspectiveDivide_def vec4_def)


lemma behind_camera_initial: "behind_camera initial_world (vec4 a b c d) = (d \<le> 0)"
  unfolding behind_camera_def initial_world_def
  by (simp add: mat_vec_IDENTITY) (auto simp add: vec4_def fle_def feq_def)

lemma in_front_initial: "in_front initial_world (vec4 a b c d) = (0 < d)"
  unfolding in_front_def initial_world_def
  by (simp add: mat_vec_IDENTITY) (simp add: vec4_def)

lemma projected_initial: "projected initial_world (vec4 a b c 1) = Inr (vec4 a b c 1)"
  unfolding projected_def initial_world_def
  by (simp add: mat_vec_IDENTITY perspectiveDivide_one)

lemma triangles_initial: "triangles initial_world = []"
  by (simp add: initial_world_def)

lemma addTriangle_007_addTriangle:
  "addTriangle_007 ia ib ic u1 v1 u2 v2 u3 v3 s =
     map_sum id snd (addTriangle (fillColor (state s)) ia ib ic u1 v1 u2 v2 u3 v3 s)"
  by (simp add: addTriangle_007_def addTriangle_def Let_def split: sum.splits)

lemma mat_vec_nan_input:
  "mat_vec IDENTITY nan_input = \<lparr>vx = NaN, vy = NaN, vz = NaN, vw = NaN\<rparr>"
  by (simp add: mat_vec_def IDENTITY_def vec4_def dot_def nan_input_def)

lemma addTriangle_nan_input:
  "addTriangle WHITE nan_input nan_input nan_input
     (Finite 0) (Finite 0) (Finite 0) (Finite 0) (Finite 0) (Finite 0) initial_world =
   Inr (nan_box, initial_world\<lparr>triangles := [nan_triangle]\<rparr>)"
proof -
  have nb: "\<not> behind_camera initial_world nan_input"
    by (simp add: behind_camera_def initial_world_def mat_vec_nan_input fle_def feq_def)
  have pr: "projected initial_world nan_input = Inr nan_point"
    by (simp add: projected_def initial_world_def mat_vec_nan_input perspectiveDivide_def
        nan_point_def)
  have nc: "\<not> beyond_common_boundary nan_point nan_point nan_point"
    by (simp add: beyond_common_boundary_def nan_point_def fgt_def)
  have bd: "bounds nan_point nan_point nan_point = nan_box"
    by (simp add: bounds_def nan_box_def nan_point_def minPairwise_def maxPairwise_def
        std_min_def std_max_def)
  show ?thesis
    using nc addTriangle_projected [OF nb nb nb pr pr pr,
        of WHITE "Finite 0" "Finite 0" "Finite 0" "Finite 0" "Finite 0" "Finite 0"]
    by (simp add: triangles_initial bd nan_triangle_def)
qed

text \<open>
  C9. The comments of the code call \<open>AABB_BOTTOM\<close> the identity element of \<open>|\<close> and
  \<open>AABB_TOP\<close> the identity element of \<open>&\<close>. On the box that \<open>addTriangle\<close> returns
  for a triangle submitted with a NaN coordinate the code is not: \<^verbatim>\<open>std::min\<close> and
  \<^verbatim>\<open>std::max\<close> return their first argument when the second is a NaN, so with
  \<open>AABB_BOTTOM\<close> or \<open>AABB_TOP\<close> on the left the NaNs of the box are replaced by
  infinities, while with them on the right the box comes back as it is.
\<close>

theorem aabb_left_identity_fails_on_nan:
  "addTriangle WHITE nan_input nan_input nan_input
     (Finite 0) (Finite 0) (Finite 0) (Finite 0) (Finite 0) (Finite 0) initial_world =
   Inr (nan_box, initial_world\<lparr>triangles := [nan_triangle]\<rparr>) \<and>
   aabb_or AABB_BOTTOM nan_box =
     \<lparr>box_min = \<lparr>vx = PosInf, vy = PosInf, vz = PosInf, vw = Finite 1\<rparr>,
      box_max = \<lparr>vx = NegInf, vy = NegInf, vz = NegInf, vw = Finite 1\<rparr>\<rparr> \<and>
   aabb_or AABB_BOTTOM nan_box \<noteq> nan_box \<and>
   aabb_or nan_box AABB_BOTTOM = nan_box \<and>
   aabb_and AABB_TOP nan_box =
     \<lparr>box_min = \<lparr>vx = NegInf, vy = NegInf, vz = NegInf, vw = Finite 1\<rparr>,
      box_max = \<lparr>vx = PosInf, vy = PosInf, vz = PosInf, vw = Finite 1\<rparr>\<rparr> \<and>
   aabb_and AABB_TOP nan_box \<noteq> nan_box \<and>
   aabb_and nan_box AABB_TOP = nan_box"
  unfolding addTriangle_nan_input
  by (simp add: aabb_or_def aabb_and_def AABB_BOTTOM_def AABB_TOP_def minPairwise_def
      maxPairwise_def nan_box_def nan_point_def std_min_def std_max_def)

lemma mat_vec_infinite_depth:
  "mat_vec (scaling (Finite 1) (Finite 1) PosInf) (vec4 x y 0 1) = nan_depth_point x y"
  by (simp add: mat_vec_def scaling_def vec4_def dot_def inf_times_def nan_depth_point_def)

lemma addTriangle_infinite_depth:
  assumes "0 \<le> xa" "xa \<le> 800" "0 \<le> ya" "ya \<le> 600"
  shows "addTriangle WHITE (vec4 xa ya 0 1) (vec4 xb yb 0 1) (vec4 xc yc 0 1)
     (Finite 0) (Finite 0) (Finite 0) (Finite 0) (Finite 0) (Finite 0)
     (infinite_depth_world\<lparr>triangles := ts\<rparr>) =
   Inr (bounds (nan_depth_point xa ya) (nan_depth_point xb yb) (nan_depth_point xc yc),
        infinite_depth_world\<lparr>triangles := ts @
          [Triangle (nan_depth_vertex xa ya) (nan_depth_vertex xb yb)
             (nan_depth_vertex xc yc)]\<rparr>)"
proof -
  let ?s = "infinite_depth_world\<lparr>triangles := ts\<rparr>"
  have nb: "\<not> behind_camera ?s (vec4 x y 0 1)" for x y
    by (simp add: behind_camera_def infinite_depth_world_def initial_world_def
        mat_vec_infinite_depth nan_depth_point_def fle_def feq_def)
  have pr: "projected ?s (vec4 x y 0 1) = Inr (nan_depth_point x y)" for x y
    by (simp add: projected_def infinite_depth_world_def initial_world_def
        mat_vec_infinite_depth perspectiveDivide_def nan_depth_point_def)
  have nc: "\<not> beyond_common_boundary (nan_depth_point xa ya) (nan_depth_point xb yb)
      (nan_depth_point xc yc)"
    using assms
    by (simp add: beyond_common_boundary_def nan_depth_point_def fgt_def WIDTH_def HEIGHT_def)
  show ?thesis
    using nc addTriangle_projected [OF nb [of xa ya] nb [of xb yb] nb [of xc yc]
        pr [of xa ya] pr [of xb yb] pr [of xc yc],
        of WHITE "Finite 0" "Finite 0" "Finite 0" "Finite 0" "Finite 0" "Finite 0"]
    by (simp add: nan_depth_vertex_def)
qed

text \<open>
  C10. The model of the division reports a zero divisor: \<open>perspectiveDivide\<close> fails,
  with \<open>DivisionByZero\<close>, exactly on a vector whose \<open>w\<close> is zero. \<open>addTriangle\<close>
  never fails, for any vertices and any current transform, in part 008-alt and in
  part 007: it divides only once the three transformed vertices have passed the test
  \<^verbatim>\<open>w <= 0\<close>, which a zero \<open>w\<close> does not pass.
\<close>

theorem addTriangle_never_divides_by_zero:
  "(perspectiveDivide v = Inl DivisionByZero) = (vw v = Finite 0) \<and>
   (\<exists>box s'. addTriangle col ia ib ic u1 v1 u2 v2 u3 v3 s = Inr (box, s')) \<and>
   (\<exists>s'. addTriangle_007 ia ib ic u1 v1 u2 v2 u3 v3 s = Inr s')"
proof -
  have returns: "\<exists>box s'. addTriangle c ia ib ic u1 v1 u2 v2 u3 v3 s = Inr (box, s')" for c
  proof (cases "behind_camera s ia \<or> behind_camera s ib \<or> behind_camera s ic")
    case True
    then show ?thesis
      using addTriangle_behind [of s ia ib ic] by simp
  next
    case False
    then obtain a b c where "projected s ia = Inr a" "projected s ib = Inr b"
      "projected s ic = Inr c"
      using projected_defined by blast
    with False show ?thesis
      using addTriangle_projected [of s ia ib ic a b c] by simp
  qed
  have "\<exists>s'. addTriangle_007 ia ib ic u1 v1 u2 v2 u3 v3 s = Inr s'"
    using returns [of "fillColor (state s)"] by (auto simp: addTriangle_007_addTriangle)
  with returns [of col] show ?thesis
    by (simp add: perspectiveDivide_zero_iff)
qed

text \<open>
  C3. For every triangle and every current transform, if at least one of the three
  transformed vertices has \<open>w \<le> 0\<close>, the submission returns \<open>AABB_BOTTOM\<close> and
  leaves the world as it was: nothing is appended to the batch, so no later flush
  hands the triangle to the renderer. The submission of part 007, which returns
  nothing, leaves the world as it was as well.
\<close>

theorem addTriangle_culls_behind_camera:
  assumes "behind_camera s ia \<or> behind_camera s ib \<or> behind_camera s ic"
  shows "addTriangle col ia ib ic u1 v1 u2 v2 u3 v3 s = Inr (AABB_BOTTOM, s) \<and>
         addTriangle_007 ia ib ic u1 v1 u2 v2 u3 v3 s = Inr s"
  using assms by (simp add: addTriangle_007_addTriangle addTriangle_behind)

theorem addTriangle_culls_behind_camera_witness:
  "behind_camera initial_world (vec4 1 2 3 0) \<and>
   addTriangle WHITE (vec4 0 0 0 1) (vec4 1 2 3 0) (vec4 5 5 5 1)
     (Finite 0) (Finite 0) (Finite 0) (Finite 0) (Finite 0) (Finite 0) initial_world =
   Inr (AABB_BOTTOM, initial_world)"
  using addTriangle_culls_behind_camera [of initial_world "vec4 0 0 0 1" "vec4 1 2 3 0" "vec4 5 5 5 1"]
  by (simp add: behind_camera_initial)

text \<open>
  C4. Take a triangle whose three transformed vertices have \<open>w > 0\<close>, and its
  vertices after the division by \<open>w\<close>. If all three lie beyond one common screen
  boundary (all \<open>x < 0\<close>, all \<open>x > WIDTH\<close>, all \<open>y < 0\<close> or all \<open>y > HEIGHT\<close>) the
  submission rejects the triangle: it returns \<open>AABB_BOTTOM\<close> and the batch is as it
  was. If at least one vertex has \<open>x \<ge> 0\<close> and the three are not all beyond any of
  the other three boundaries, the triangle is appended to the batch with the divided
  coordinates of its three vertices, unclipped.
\<close>

theorem addTriangle_screen_culling:
  assumes "in_front s ia" "in_front s ib" "in_front s ic"
    and "projected s ia = Inr a" "projected s ib = Inr b" "projected s ic = Inr c"
  shows "(beyond_common_boundary a b c \<longrightarrow>
            addTriangle col ia ib ic u1 v1 u2 v2 u3 v3 s = Inr (AABB_BOTTOM, s)) \<and>
         ((fle (Finite 0) (vx a) \<or> fle (Finite 0) (vx b) \<or> fle (Finite 0) (vx c)) \<and>
          \<not> (fgt (vx a) WIDTH \<and> fgt (vx b) WIDTH \<and> fgt (vx c) WIDTH) \<and>
          \<not> (flt (vy a) (Finite 0) \<and> flt (vy b) (Finite 0) \<and> flt (vy c) (Finite 0)) \<and>
          \<not> (fgt (vy a) HEIGHT \<and> fgt (vy b) HEIGHT \<and> fgt (vy c) HEIGHT) \<longrightarrow>
            addTriangle col ia ib ic u1 v1 u2 v2 u3 v3 s =
              Inr (bounds a b c,
                   s\<lparr>triangles := triangles s @
                      [Triangle (vertex_at a col u1 v1) (vertex_at b col u2 v2)
                         (vertex_at c col u3 v3)]\<rparr>))"
proof -
  have nb: "\<not> behind_camera s ia" "\<not> behind_camera s ib" "\<not> behind_camera s ic"
    using assms(1-3) by (simp_all add: in_front_not_behind)
  have fle_not_flt: "\<And>x. fle (Finite 0) x \<Longrightarrow> \<not> flt x (Finite 0)"
    by (auto simp: fle_def feq_def dest: flt_asym)
  show ?thesis
    unfolding addTriangle_projected [OF nb assms(4-6)]
    by (auto simp: beyond_common_boundary_def dest: fle_not_flt)
qed

theorem addTriangle_screen_culling_witness:
  "addTriangle WHITE (vec4 (-30) 10 0 1) (vec4 (-20) 700 0 1) (vec4 (-10) 300 0 1)
     (Finite 0) (Finite 0) (Finite 0) (Finite 0) (Finite 0) (Finite 0) initial_world =
   Inr (AABB_BOTTOM, initial_world) \<and>
   addTriangle WHITE (vec4 (-30) 10 0 1) (vec4 50 700 0 1) (vec4 (-10) 300 0 1)
     (Finite 0) (Finite 0) (Finite 0) (Finite 0) (Finite 0) (Finite 0) initial_world =
   Inr (bounds (vec4 (-30) 10 0 1) (vec4 50 700 0 1) (vec4 (-10) 300 0 1),
        initial_world\<lparr>triangles :=
          [Triangle (vertex_at (vec4 (-30) 10 0 1) WHITE (Finite 0) (Finite 0))
                    (vertex_at (vec4 50 700 0 1) WHITE (Finite 0) (Finite 0))
                    (vertex_at (vec4 (-10) 300 0 1) WHITE (Finite 0) (Finite 0))]\<rparr>)"
proof -
  have l: "beyond_common_boundary (vec4 (-30) 10 0 1) (vec4 (-20) 700 0 1) (vec4 (-10) 300 0 1)"
    by (simp add: beyond_common_boundary_def vec4_def)
  have r: "(fle (Finite 0) (vx (vec4 (-30) 10 0 1)) \<or> fle (Finite 0) (vx (vec4 50 700 0 1)) \<or>
            fle (Finite 0) (vx (vec4 (-10) 300 0 1))) \<and>
          \<not> (fgt (vx (vec4 (-30) 10 0 1)) WIDTH \<and> fgt (vx (vec4 50 700 0 1)) WIDTH \<and>
             fgt (vx (vec4 (-10) 300 0 1)) WIDTH) \<and>
          \<not> (flt (vy (vec4 (-30) 10 0 1)) (Finite 0) \<and> flt (vy (vec4 50 700 0 1)) (Finite 0) \<and>
             flt (vy (vec4 (-10) 300 0 1)) (Finite 0)) \<and>
          \<not> (fgt (vy (vec4 (-30) 10 0 1)) HEIGHT \<and> fgt (vy (vec4 50 700 0 1)) HEIGHT \<and>
             fgt (vy (vec4 (-10) 300 0 1)) HEIGHT)"
    by (simp add: vec4_def fle_def feq_def fgt_def WIDTH_def HEIGHT_def)
  have f: "in_front initial_world (vec4 (-30) 10 0 1)" "in_front initial_world (vec4 (-20) 700 0 1)"
    "in_front initial_world (vec4 (-10) 300 0 1)" "in_front initial_world (vec4 50 700 0 1)"
    by (simp_all add: in_front_initial)
  show ?thesis
    using l r
      addTriangle_screen_culling [OF f(1) f(2) f(3) projected_initial projected_initial projected_initial,
        of WHITE "Finite 0" "Finite 0" "Finite 0" "Finite 0" "Finite 0" "Finite 0"]
      addTriangle_screen_culling [OF f(1) f(4) f(3) projected_initial projected_initial projected_initial,
        of WHITE "Finite 0" "Finite 0" "Finite 0" "Finite 0" "Finite 0" "Finite 0"]
    by (simp add: triangles_initial)
qed

text \<open>
  C2, as the claim has it, fails. Under the identity transform the triangle
  \<open>(-100, -100)\<close>, \<open>(2000, -100)\<close>, \<open>(400, 3000)\<close> has its three vertices off the
  \<open>800 \<times> 600\<close> screen and surrounds it, no boundary has all three vertices on its
  outer side, and the submission appends it to the batch.
\<close>

theorem picture_frame_counterexample:
  "in_front initial_world (vec4 (-100) (-100) 0 1) \<and>
   in_front initial_world (vec4 2000 (-100) 0 1) \<and>
   in_front initial_world (vec4 400 3000 0 1) \<and>
   projected initial_world (vec4 (-100) (-100) 0 1) = Inr (vec4 (-100) (-100) 0 1) \<and>
   projected initial_world (vec4 2000 (-100) 0 1) = Inr (vec4 2000 (-100) 0 1) \<and>
   projected initial_world (vec4 400 3000 0 1) = Inr (vec4 400 3000 0 1) \<and>
   outside_screen (vec4 (-100) (-100) 0 1) \<and>
   outside_screen (vec4 2000 (-100) 0 1) \<and>
   outside_screen (vec4 400 3000 0 1) \<and>
   \<not> beyond_common_boundary (vec4 (-100) (-100) 0 1) (vec4 2000 (-100) 0 1) (vec4 400 3000 0 1) \<and>
   addTriangle WHITE (vec4 (-100) (-100) 0 1) (vec4 2000 (-100) 0 1) (vec4 400 3000 0 1)
     (Finite 0) (Finite 0) (Finite 0) (Finite 0) (Finite 0) (Finite 0) initial_world =
   Inr (bounds (vec4 (-100) (-100) 0 1) (vec4 2000 (-100) 0 1) (vec4 400 3000 0 1),
        initial_world\<lparr>triangles :=
          [Triangle (vertex_at (vec4 (-100) (-100) 0 1) WHITE (Finite 0) (Finite 0))
                    (vertex_at (vec4 2000 (-100) 0 1) WHITE (Finite 0) (Finite 0))
                    (vertex_at (vec4 400 3000 0 1) WHITE (Finite 0) (Finite 0))]\<rparr>)"
proof -
  have nb: "\<not> behind_camera initial_world (vec4 (-100) (-100) 0 1)"
    "\<not> behind_camera initial_world (vec4 2000 (-100) 0 1)"
    "\<not> behind_camera initial_world (vec4 400 3000 0 1)"
    by (simp_all add: behind_camera_initial)
  have nc: "\<not> beyond_common_boundary (vec4 (-100) (-100) 0 1) (vec4 2000 (-100) 0 1) (vec4 400 3000 0 1)"
    by (simp add: beyond_common_boundary_def vec4_def fgt_def WIDTH_def HEIGHT_def)
  have out: "outside_screen (vec4 (-100) (-100) 0 1)" "outside_screen (vec4 2000 (-100) 0 1)"
    "outside_screen (vec4 400 3000 0 1)"
    by (simp_all add: outside_screen_def vec4_def fgt_def WIDTH_def HEIGHT_def)
  show ?thesis
    using nc out addTriangle_projected [OF nb projected_initial projected_initial projected_initial,
      of WHITE "Finite 0" "Finite 0" "Finite 0" "Finite 0" "Finite 0" "Finite 0"]
    by (simp add: in_front_initial projected_initial triangles_initial)
qed

text \<open>
  C2, as the code has it. A triangle in front of the camera whose three divided
  vertices are all off the screen, with no single boundary having all three on its
  outer side, is not culled: the submission appends it to the batch, unclipped, and
  returns its bounding box.
\<close>

theorem picture_frame_is_kept:
  assumes "in_front s ia" "in_front s ib" "in_front s ic"
    and "projected s ia = Inr a" "projected s ib = Inr b" "projected s ic = Inr c"
    and "outside_screen a" "outside_screen b" "outside_screen c"
    and "\<not> beyond_common_boundary a b c"
  shows "addTriangle col ia ib ic u1 v1 u2 v2 u3 v3 s =
           Inr (bounds a b c,
                s\<lparr>triangles := triangles s @
                   [Triangle (vertex_at a col u1 v1) (vertex_at b col u2 v2)
                      (vertex_at c col u3 v3)]\<rparr>)"
proof -
  have nb: "\<not> behind_camera s ia" "\<not> behind_camera s ib" "\<not> behind_camera s ic"
    using assms(1-3) by (simp_all add: in_front_not_behind)
  show ?thesis
    unfolding addTriangle_projected [OF nb assms(4-6)] using assms(10) by simp
qed


theorem picture_frame_is_kept_witness:
  "triangles (snd (projr (addTriangle PEACH (vec4 (-1) 300 7 1) (vec4 900 (-5) 7 1)
      (vec4 900 700 7 1) (Finite 0) (Finite 0) (Finite 0) (Finite 0) (Finite 0) (Finite 0)
      initial_world))) =
     [Triangle (vertex_at (vec4 (-1) 300 7 1) PEACH (Finite 0) (Finite 0))
               (vertex_at (vec4 900 (-5) 7 1) PEACH (Finite 0) (Finite 0))
               (vertex_at (vec4 900 700 7 1) PEACH (Finite 0) (Finite 0))]"
proof -
  have f: "in_front initial_world (vec4 (-1) 300 7 1)" "in_front initial_world (vec4 900 (-5) 7 1)"
    "in_front initial_world (vec4 900 700 7 1)"
    by (simp_all add: in_front_initial)
  have out: "outside_screen (vec4 (-1) 300 7 1)" "outside_screen (vec4 900 (-5) 7 1)"
    "outside_screen (vec4 900 700 7 1)"
    by (simp_all add: outside_screen_def vec4_def fgt_def WIDTH_def HEIGHT_def)
  have nc: "\<not> beyond_common_boundary (vec4 (-1) 300 7 1) (vec4 900 (-5) 7 1) (vec4 900 700 7 1)"
    by (simp add: beyond_common_boundary_def vec4_def fgt_def WIDTH_def HEIGHT_def)
  show ?thesis
    using picture_frame_is_kept [OF f projected_initial projected_initial projected_initial out nc,
      of PEACH "Finite 0" "Finite 0" "Finite 0" "Finite 0" "Finite 0" "Finite 0"]
    by (simp add: triangles_initial)
qed

section \<open>Sorting and flushing\<close>

lemma mset_insert_before: "mset (insert_before lt x xs) = add_mset x (mset xs)"
  by (induction xs) simp_all

lemma mset_std_sort: "mset (std_sort lt xs) = mset xs"
  by (induction xs) (simp_all add: mset_insert_before)

lemma set_std_sort: "set (std_sort lt xs) = set xs"
  using mset_std_sort [of lt xs] by (metis set_mset_mset)

lemma length_std_sort: "length (std_sort lt xs) = length xs"
  using mset_std_sort [of lt xs] by (metis size_mset)

lemma lex_less_le:
  "length as = length bs \<Longrightarrow> lex_less as bs \<Longrightarrow> lex_le as bs"
  by (induction as bs rule: list_induct2) auto

lemma lex_le_iff_not_less:
  "length as = length bs \<Longrightarrow> NaN \<notin> set as \<Longrightarrow> NaN \<notin> set bs \<Longrightarrow>
   lex_le as bs = (\<not> lex_less bs as)"
proof (induction as bs rule: list_induct2)
  case Nil
  then show ?case by simp
next
  case (Cons a as b bs)
  then have ab: "a \<noteq> NaN" "b \<noteq> NaN" by auto
  show ?case
    using Cons flt_trichotomy [OF ab] flt_asym [of a b] flt_asym [of b a]
    by (auto simp: feq_def)
qed

lemma lex_le_trans:
  "length as = length bs \<Longrightarrow> length bs = length cs \<Longrightarrow>
   lex_le as bs \<Longrightarrow> lex_le bs cs \<Longrightarrow> lex_le as cs"
proof (induction as bs cs rule: list_induct3)
  case Nil
  then show ?case by simp
next
  case (Cons a as b bs c cs)
  then show ?case
    by (auto simp: feq_def dest: flt_trans)
qed

lemma sorted_insert_before:
  assumes lt: "\<And>l r. lt l r = lex_less (key l) (key r)"
    and x: "keyed key n x" and xs: "\<forall>y\<in>set xs. keyed key n y"
    and sorted: "sorted_wrt (\<lambda>l r. lex_le (key l) (key r)) xs"
  shows "sorted_wrt (\<lambda>l r. lex_le (key l) (key r)) (insert_before lt x xs)"
  using xs sorted
proof (induction xs)
  case Nil
  then show ?case by simp
next
  case (Cons y ys)
  have y: "keyed key n y" using Cons.prems by simp
  show ?case
  proof (cases "lt y x")
    case True
    then have "lex_le (key y) (key x)"
      using lex_less_le [of "key y" "key x"] x y by (simp add: lt keyed_def)
    moreover have "set (insert_before lt x ys) = insert x (set ys)"
      using mset_insert_before [of lt x ys] by (metis set_mset_mset set_mset_add_mset_insert)
    ultimately show ?thesis using True Cons by auto
  next
    case False
    then have xy: "lex_le (key x) (key y)"
      using lex_le_iff_not_less [of "key x" "key y"] x y by (simp add: lt keyed_def)
    have "lex_le (key x) (key z)" if "z \<in> set ys" for z
    proof -
      have "lex_le (key y) (key z)" using Cons.prems that by simp
      moreover have "keyed key n z" using Cons.prems that by simp
      ultimately show ?thesis
        using lex_le_trans [of "key x" "key y" "key z"] xy x y by (simp add: keyed_def)
    qed
    then show ?thesis using False xy Cons.prems by auto
  qed
qed

lemma sorted_std_sort:
  assumes lt: "\<And>l r. lt l r = lex_less (key l) (key r)"
    and xs: "\<forall>y\<in>set xs. keyed key n y"
  shows "sorted_wrt (\<lambda>l r. lex_le (key l) (key r)) (std_sort lt xs)"
  using xs
proof (induction xs)
  case Nil
  then show ?case by simp
next
  case (Cons x xs)
  then show ?case
    using sorted_insert_before [of lt key n x "std_sort lt xs", OF lt]
    by (simp add: set_std_sort)
qed

lemma vertex_less_lex: "vertex_less l r = lex_less (zyx l) (zyx r)"
  by (simp add: vertex_less_def zyx_def)

lemma first_difference_lex:
  "length as = length bs \<Longrightarrow>
   lex_less (as @ cs) (bs @ ds) =
     (case first_difference as bs of Some result \<Rightarrow> result | None \<Rightarrow> lex_less cs ds)"
  by (induction as bs rule: list_induct2) (auto simp: fne_def feq_def)

lemma first_difference_lex_last:
  "length as = length bs \<Longrightarrow>
   lex_less as bs = (case first_difference as bs of Some result \<Rightarrow> result | None \<Rightarrow> False)"
  using first_difference_lex [of as bs "[]" "[]"] by (auto split: option.splits)

lemma vertices_length: "length (vertices t) = 3"
  by (cases t) simp

lemma triangle_less_lex: "triangle_less l r = lex_less (key9 l) (key9 r)"
proof -
  have len: "length (map f (vertices l)) = length (map f (vertices r))" for f :: "Vertex \<Rightarrow> float"
    by (simp add: vertices_length)
  show ?thesis
    unfolding triangle_less_def key9_def
      first_difference_lex [OF len] first_difference_lex_last [OF len] ..
qed

lemma vertices_sortVertices: "vertices (sortVertices t) = std_sort vertex_less (vertices t)"
proof -
  have "length (std_sort vertex_less (vertices t)) = 3"
    by (simp add: length_std_sort vertices_length)
  then obtain p q r where "std_sort vertex_less (vertices t) = [p, q, r]"
    by (auto simp: length_Suc_conv numeral_3_eq_3)
  then show ?thesis by (simp add: sortVertices_def)
qed

lemma mset_vertices_sortVertices: "mset (vertices (sortVertices t)) = mset (vertices t)"
  by (simp add: vertices_sortVertices mset_std_sort)

lemma set_key9: "set (key9 t) = (pz ` set (vertices t)) \<union> (py ` set (vertices t)) \<union> (px ` set (vertices t))"
  by (auto simp: key9_def)

lemma triangle_ordinary_sortVertices: "triangle_ordinary (sortVertices t) = triangle_ordinary t"
  unfolding triangle_ordinary_def set_key9 vertices_sortVertices set_std_sort ..

lemma triangle_ordinary_vertex:
  "triangle_ordinary t \<Longrightarrow> v \<in> set (vertices t) \<Longrightarrow> keyed zyx 3 v"
  by (auto simp: triangle_ordinary_def set_key9 keyed_def zyx_def image_iff)

lemma sorted_vertices_sortVertices:
  assumes "triangle_ordinary t"
  shows "sorted_wrt (\<lambda>u v. lex_le (zyx u) (zyx v)) (vertices (sortVertices t))"
  unfolding vertices_sortVertices
  using sorted_std_sort [of vertex_less zyx "vertices t" 3] assms
  by (simp add: vertex_less_lex triangle_ordinary_vertex)

lemma length_key9: "length (key9 t) = 9"
  by (simp add: key9_def vertices_length)

lemma sorted_ascending_batch:
  assumes "\<forall>t\<in>set (triangles s). triangle_ordinary t"
  shows "sorted_wrt (\<lambda>l r. lex_le (key9 l) (key9 r)) (ascending_batch s)"
  unfolding ascending_batch_def
  using sorted_std_sort [of triangle_less key9 "map sortVertices (triangles s)" 9] assms
  by (simp add: triangle_less_lex keyed_def length_key9 triangle_ordinary_sortVertices
      triangle_ordinary_def [symmetric])

lemma mset_ascending_batch: "mset (ascending_batch s) = mset (map sortVertices (triangles s))"
  by (simp add: ascending_batch_def mset_std_sort)

lemma sorted_batch_ascending:
  "sorted_batch s = (if reverseSortTriangles s then rev (ascending_batch s) else ascending_batch s)"
  by (simp add: sorted_batch_def)

lemma flush_empty: "triangles s = [] \<Longrightarrow> flush SDL s = Inr (0, s)"
  by (simp add: flush_def)

lemma length_sorted_batch: "length (sorted_batch s) = length (triangles s)"
  by (simp add: sorted_batch_def ascending_batch_def Let_def length_std_sort)

lemma flush_nonempty:
  "triangles s \<noteq> [] \<Longrightarrow> SDL (sorted_batch s) = 0 \<Longrightarrow>
   flush SDL s =
     Inr (length (triangles s), s\<lparr>triangles := [], drawCalls := drawCalls s @ [sorted_batch s]\<rparr>)"
  by (simp add: flush_def Let_def length_sorted_batch)

lemma flush_fails:
  "triangles s \<noteq> [] \<Longrightarrow> SDL (sorted_batch s) \<noteq> 0 \<Longrightarrow>
   flush SDL s = Inl (SdlError ''SDL_RenderGeometryRaw'')"
  by (simp add: flush_def Let_def sdlError_def)


lemma unsorted_world_ordinary: "\<forall>t\<in>set (triangles unsorted_world). triangle_ordinary t"
  by (simp add: unsorted_world_def initial_world_def triangle_ordinary_def key9_def screen_vertex_def)

lemma sortVertices_unsorted:
  "map sortVertices (triangles unsorted_world) =
     [Triangle (screen_vertex 10 40 8 WHITE 0 0) (screen_vertex 10 20 9 WHITE 0 0)
               (screen_vertex 30 20 9 WHITE 0 0),
      Triangle (screen_vertex 6 4 3 PEACH 0 0) (screen_vertex 7 4 3 PEACH 0 0)
               (screen_vertex 5 5 3 PEACH 0 0)]"
  by (simp add: unsorted_world_def initial_world_def sortVertices_def vertex_less_def
      screen_vertex_def feq_def)

lemma ascending_unsorted:
  "ascending_batch unsorted_world =
     [Triangle (screen_vertex 6 4 3 PEACH 0 0) (screen_vertex 7 4 3 PEACH 0 0)
               (screen_vertex 5 5 3 PEACH 0 0),
      Triangle (screen_vertex 10 40 8 WHITE 0 0) (screen_vertex 10 20 9 WHITE 0 0)
               (screen_vertex 30 20 9 WHITE 0 0)]"
  unfolding ascending_batch_def sortVertices_unsorted
  by (simp add: triangle_less_def screen_vertex_def fne_def feq_def)

lemma flush_007_empty:
  "triangles s = [] \<Longrightarrow>
   flush_007 SDL s =
     (if SDL [] \<noteq> 0 then Inl (SdlError ''SDL_RenderGeometryRaw'')
      else Inr (0, s\<lparr>drawCalls := drawCalls s @ [[]]\<rparr>))"
  by (simp add: flush_007_def sdlError_def)

lemma sortVertices_nan_depth:
  "sortVertices (Triangle (nan_depth_vertex xa ya) (nan_depth_vertex xb yb)
     (nan_depth_vertex xc yc)) =
   Triangle (nan_depth_vertex xa ya) (nan_depth_vertex xb yb) (nan_depth_vertex xc yc)"
  by (simp add: sortVertices_def vertex_less_def nan_depth_vertex_def nan_depth_point_def
      vertex_at_def feq_def)

lemma flush_infinite_depth:
  "ts \<noteq> [] \<Longrightarrow>
   flush (\<lambda>ts. 0) (infinite_depth_world\<lparr>triangles := ts\<rparr>) =
     Inr (length ts,
          infinite_depth_world\<lparr>drawCalls :=
            [std_sort triangle_less (map sortVertices ts)]\<rparr>)"
  using flush_nonempty [of "infinite_depth_world\<lparr>triangles := ts\<rparr>" "\<lambda>ts. 0"]
  by (simp add: sorted_batch_def ascending_batch_def infinite_depth_world_def initial_world_def)

text \<open>
  C5, as the claim has it, fails on a triangle with a NaN coordinate. Under
  \<^verbatim>\<open>scaling(1, 1, INFINITY)\<close> the triangle \<open>(30, 300, 0)\<close>, \<open>(20, 200, 0)\<close>,
  \<open>(10, 100, 0)\<close> is accepted by the submission with the depth NaN at its three
  vertices. Every comparison of two of its vertices is false, the sort leaves them
  as they are, and the flush hands them to the renderer in the order of the
  submission, descending in \<open>y\<close> and in \<open>x\<close>: not in ascending order of
  \<open>(z, y, x)\<close>.
\<close>

theorem nan_vertices_stay_unsorted:
  "addTriangle WHITE (vec4 30 300 0 1) (vec4 20 200 0 1) (vec4 10 100 0 1)
     (Finite 0) (Finite 0) (Finite 0) (Finite 0) (Finite 0) (Finite 0) infinite_depth_world =
   Inr (bounds (nan_depth_point 30 300) (nan_depth_point 20 200) (nan_depth_point 10 100),
        infinite_depth_world\<lparr>triangles := [descending_triangle]\<rparr>) \<and>
   flush (\<lambda>ts. 0) (infinite_depth_world\<lparr>triangles := [descending_triangle]\<rparr>) =
   Inr (1, infinite_depth_world\<lparr>drawCalls := [[descending_triangle]]\<rparr>) \<and>
   vertices descending_triangle =
     [nan_depth_vertex 30 300, nan_depth_vertex 20 200, nan_depth_vertex 10 100] \<and>
   \<not> sorted_wrt (\<lambda>u v. lex_le (zyx u) (zyx v)) (vertices descending_triangle)"
proof -
  have add: "addTriangle WHITE (vec4 30 300 0 1) (vec4 20 200 0 1) (vec4 10 100 0 1)
     (Finite 0) (Finite 0) (Finite 0) (Finite 0) (Finite 0) (Finite 0) infinite_depth_world =
   Inr (bounds (nan_depth_point 30 300) (nan_depth_point 20 200) (nan_depth_point 10 100),
        infinite_depth_world\<lparr>triangles := [descending_triangle]\<rparr>)"
    using addTriangle_infinite_depth [where xa = 30 and ya = 300 and xb = 20 and yb = 200
        and xc = 10 and yc = 100 and ts = "[]"]
    by (simp add: infinite_depth_world_def initial_world_def descending_triangle_def)
  have fl: "flush (\<lambda>ts. 0) (infinite_depth_world\<lparr>triangles := [descending_triangle]\<rparr>) =
      Inr (1, infinite_depth_world\<lparr>drawCalls := [[descending_triangle]]\<rparr>)"
    using flush_infinite_depth [of "[descending_triangle]"]
    by (simp add: descending_triangle_def sortVertices_nan_depth)
  have ns: "\<not> sorted_wrt (\<lambda>u v. lex_le (zyx u) (zyx v)) (vertices descending_triangle)"
    by (simp add: descending_triangle_def zyx_def nan_depth_vertex_def nan_depth_point_def
        vertex_at_def feq_def)
  show ?thesis
    using add fl ns by (simp add: descending_triangle_def)
qed

text \<open>
  C5, as the code has it. Take a non-empty batch and a renderer that accepts the
  vertex data. The flush returns the number of triangles, empties the batch and
  hands the renderer, in some order, the triangles of the batch with their vertices
  reordered: each reordered triangle has the same three vertices, and those of a
  triangle with no NaN among its coordinates are in ascending lexicographic order
  of \<open>(z, y, x)\<close>. In particular, under the identity transform the triangle
  \<open>(100, 100, 5)\<close>, \<open>(200, 100, 5)\<close>, \<open>(150, 50, 5)\<close> is accepted by the
  submission, and the flush after it returns 1 and hands over the one triangle
  \<open>(150, 50, 5)\<close>, \<open>(100, 100, 5)\<close>, \<open>(200, 100, 5)\<close>.
\<close>

theorem flush_sorts_vertices:
  "(triangles s \<noteq> [] \<and> SDL (sorted_batch s) = 0 \<longrightarrow>
      flush SDL s =
        Inr (length (triangles s),
             s\<lparr>triangles := [], drawCalls := drawCalls s @ [sorted_batch s]\<rparr>) \<and>
      mset (sorted_batch s) = mset (map sortVertices (triangles s)) \<and>
      (\<forall>t\<in>set (triangles s).
         mset (vertices (sortVertices t)) = mset (vertices t) \<and>
         (triangle_ordinary t \<longrightarrow>
            sorted_wrt (\<lambda>u v. lex_le (zyx u) (zyx v)) (vertices (sortVertices t))))) \<and>
   (\<exists>box s1.
      addTriangle col (vec4 100 100 5 1) (vec4 200 100 5 1) (vec4 150 50 5 1)
        u1 v1 u2 v2 u3 v3 initial_world = Inr (box, s1) \<and>
      flush (\<lambda>ts. 0) s1 =
        Inr (1, initial_world\<lparr>drawCalls :=
          [[Triangle (vertex_at (vec4 150 50 5 1) col u3 v3)
                     (vertex_at (vec4 100 100 5 1) col u1 v1)
                     (vertex_at (vec4 200 100 5 1) col u2 v2)]]\<rparr>))"
proof (intro conjI impI ballI; (elim conjE)?)
  assume "triangles s \<noteq> []" "SDL (sorted_batch s) = 0"
  then show "flush SDL s =
        Inr (length (triangles s),
             s\<lparr>triangles := [], drawCalls := drawCalls s @ [sorted_batch s]\<rparr>)"
    by (rule flush_nonempty)
next
  show "mset (sorted_batch s) = mset (map sortVertices (triangles s))"
    by (simp add: sorted_batch_ascending mset_ascending_batch)
next
  fix t
  show "mset (vertices (sortVertices t)) = mset (vertices t)"
    by (rule mset_vertices_sortVertices)
next
  fix t
  assume "triangle_ordinary t"
  then show "sorted_wrt (\<lambda>u v. lex_le (zyx u) (zyx v)) (vertices (sortVertices t))"
    by (rule sorted_vertices_sortVertices)
next
  let ?t = "Triangle (vertex_at (vec4 100 100 5 1) col u1 v1)
                     (vertex_at (vec4 200 100 5 1) col u2 v2)
                     (vertex_at (vec4 150 50 5 1) col u3 v3)"
  let ?s1 = "initial_world\<lparr>triangles := [?t]\<rparr>"
  have nb: "\<not> behind_camera initial_world (vec4 100 100 5 1)"
    "\<not> behind_camera initial_world (vec4 200 100 5 1)"
    "\<not> behind_camera initial_world (vec4 150 50 5 1)"
    by (simp_all add: behind_camera_initial)
  have nc: "\<not> beyond_common_boundary (vec4 100 100 5 1) (vec4 200 100 5 1) (vec4 150 50 5 1)"
    by (simp add: beyond_common_boundary_def vec4_def fgt_def WIDTH_def HEIGHT_def)
  have add: "addTriangle col (vec4 100 100 5 1) (vec4 200 100 5 1) (vec4 150 50 5 1)
        u1 v1 u2 v2 u3 v3 initial_world =
      Inr (bounds (vec4 100 100 5 1) (vec4 200 100 5 1) (vec4 150 50 5 1), ?s1)"
    using nc addTriangle_projected [OF nb projected_initial projected_initial projected_initial,
      of col u1 v1 u2 v2 u3 v3]
    by (simp add: triangles_initial)
  have sv: "sortVertices ?t =
      Triangle (vertex_at (vec4 150 50 5 1) col u3 v3) (vertex_at (vec4 100 100 5 1) col u1 v1)
        (vertex_at (vec4 200 100 5 1) col u2 v2)"
    by (simp add: sortVertices_def vertex_less_def vertex_at_def vec4_def feq_def)
  have sb: "sorted_batch ?s1 = [sortVertices ?t]"
    by (simp add: sorted_batch_def ascending_batch_def initial_world_def)
  have "flush (\<lambda>ts. 0) ?s1 =
      Inr (1, initial_world\<lparr>drawCalls := [[sortVertices ?t]]\<rparr>)"
    using flush_nonempty [of ?s1 "\<lambda>ts. 0"] unfolding sb
    by (simp add: initial_world_def)
  with add show "\<exists>box s1.
      addTriangle col (vec4 100 100 5 1) (vec4 200 100 5 1) (vec4 150 50 5 1)
        u1 v1 u2 v2 u3 v3 initial_world = Inr (box, s1) \<and>
      flush (\<lambda>ts. 0) s1 =
        Inr (1, initial_world\<lparr>drawCalls :=
          [[Triangle (vertex_at (vec4 150 50 5 1) col u3 v3)
                     (vertex_at (vec4 100 100 5 1) col u1 v1)
                     (vertex_at (vec4 200 100 5 1) col u2 v2)]]\<rparr>)"
    unfolding sv by blast
qed


theorem flush_sorts_vertices_witness:
  "flush (\<lambda>ts. 0) unsorted_world =
     Inr (2, initial_world\<lparr>drawCalls :=
       [[Triangle (screen_vertex 6 4 3 PEACH 0 0) (screen_vertex 7 4 3 PEACH 0 0)
                  (screen_vertex 5 5 3 PEACH 0 0),
         Triangle (screen_vertex 10 40 8 WHITE 0 0) (screen_vertex 10 20 9 WHITE 0 0)
                  (screen_vertex 30 20 9 WHITE 0 0)]]\<rparr>)"
proof -
  have ne: "triangles unsorted_world \<noteq> []"
    by (simp add: unsorted_world_def initial_world_def)
  have sb: "sorted_batch unsorted_world = ascending_batch unsorted_world"
    by (simp add: sorted_batch_ascending unsorted_world_def initial_world_def)
  show ?thesis
    using flush_sorts_vertices [of unsorted_world "\<lambda>ts. 0"] unsorted_world_ordinary ne
    unfolding sb ascending_unsorted
    by (simp add: unsorted_world_def initial_world_def)
qed

text \<open>
  C6, as the claim has it, fails on a batch with NaN coordinates. Under
  \<^verbatim>\<open>scaling(1, 1, INFINITY)\<close> two triangles are submitted, the first with its
  \<open>y\<close> at 400 and above, the second with its \<open>y\<close> at 100 and below, both with
  the depth NaN at every vertex. The comparison of the two triangles is false in
  both directions, the sort leaves them as they are, and the flush hands them to
  the renderer in the order of the submission. Their keys are not in ascending
  order, and would not be in the other order either.
\<close>

theorem nan_batch_stays_unsorted:
  "addTriangle WHITE (vec4 10 400 0 1) (vec4 20 400 0 1) (vec4 15 500 0 1)
     (Finite 0) (Finite 0) (Finite 0) (Finite 0) (Finite 0) (Finite 0) infinite_depth_world =
   Inr (bounds (nan_depth_point 10 400) (nan_depth_point 20 400) (nan_depth_point 15 500),
        infinite_depth_world\<lparr>triangles := [far_triangle]\<rparr>) \<and>
   addTriangle WHITE (vec4 10 100 0 1) (vec4 20 100 0 1) (vec4 15 50 0 1)
     (Finite 0) (Finite 0) (Finite 0) (Finite 0) (Finite 0) (Finite 0)
     (infinite_depth_world\<lparr>triangles := [far_triangle]\<rparr>) =
   Inr (bounds (nan_depth_point 10 100) (nan_depth_point 20 100) (nan_depth_point 15 50),
        infinite_depth_world\<lparr>triangles := [far_triangle, near_triangle]\<rparr>) \<and>
   flush (\<lambda>ts. 0) (infinite_depth_world\<lparr>triangles := [far_triangle, near_triangle]\<rparr>) =
   Inr (2, infinite_depth_world\<lparr>drawCalls := [[far_triangle, near_triangle]]\<rparr>) \<and>
   \<not> triangle_less far_triangle near_triangle \<and>
   \<not> triangle_less near_triangle far_triangle \<and>
   \<not> sorted_wrt (\<lambda>l r. lex_le (key9 l) (key9 r)) [far_triangle, near_triangle] \<and>
   \<not> sorted_wrt (\<lambda>l r. lex_le (key9 l) (key9 r)) [near_triangle, far_triangle]"
proof -
  have add1: "addTriangle WHITE (vec4 10 400 0 1) (vec4 20 400 0 1) (vec4 15 500 0 1)
     (Finite 0) (Finite 0) (Finite 0) (Finite 0) (Finite 0) (Finite 0) infinite_depth_world =
   Inr (bounds (nan_depth_point 10 400) (nan_depth_point 20 400) (nan_depth_point 15 500),
        infinite_depth_world\<lparr>triangles := [far_triangle]\<rparr>)"
    using addTriangle_infinite_depth [where xa = 10 and ya = 400 and xb = 20 and yb = 400
        and xc = 15 and yc = 500 and ts = "[]"]
    by (simp add: infinite_depth_world_def initial_world_def far_triangle_def)
  have add2: "addTriangle WHITE (vec4 10 100 0 1) (vec4 20 100 0 1) (vec4 15 50 0 1)
     (Finite 0) (Finite 0) (Finite 0) (Finite 0) (Finite 0) (Finite 0)
     (infinite_depth_world\<lparr>triangles := [far_triangle]\<rparr>) =
   Inr (bounds (nan_depth_point 10 100) (nan_depth_point 20 100) (nan_depth_point 15 50),
        infinite_depth_world\<lparr>triangles := [far_triangle, near_triangle]\<rparr>)"
    using addTriangle_infinite_depth [where xa = 10 and ya = 100 and xb = 20 and yb = 100
        and xc = 15 and yc = 50 and ts = "[far_triangle]"]
    by (simp add: near_triangle_def)
  have less: "\<not> triangle_less far_triangle near_triangle"
    "\<not> triangle_less near_triangle far_triangle"
    by (simp_all add: triangle_less_def far_triangle_def near_triangle_def nan_depth_vertex_def
        nan_depth_point_def vertex_at_def fne_def feq_def)
  have sv: "map sortVertices [far_triangle, near_triangle] = [far_triangle, near_triangle]"
    by (simp add: far_triangle_def near_triangle_def sortVertices_nan_depth)
  have fl: "flush (\<lambda>ts. 0) (infinite_depth_world\<lparr>triangles := [far_triangle, near_triangle]\<rparr>) =
      Inr (2, infinite_depth_world\<lparr>drawCalls := [[far_triangle, near_triangle]]\<rparr>)"
    using flush_infinite_depth [of "[far_triangle, near_triangle]"] less
    unfolding sv by simp
  have ns: "\<not> sorted_wrt (\<lambda>l r. lex_le (key9 l) (key9 r)) [far_triangle, near_triangle]"
    "\<not> sorted_wrt (\<lambda>l r. lex_le (key9 l) (key9 r)) [near_triangle, far_triangle]"
    by (simp_all add: key9_def far_triangle_def near_triangle_def nan_depth_vertex_def
        nan_depth_point_def vertex_at_def feq_def)
  show ?thesis
    using add1 add2 fl less ns by simp
qed

text \<open>
  C6, as the code has it. The comparison of two triangles in the code is the strict
  lexicographic comparison of their keys \<open>(z0, z1, z2, y0, y1, y2, x0, x1, x2)\<close>.
  For a non-empty batch with no NaN among its coordinates and a renderer that
  accepts the data, the flush hands the renderer \<open>sorted_batch\<close>: the triangles,
  their vertices reordered, in ascending lexicographic order of these keys when the
  reverse flag is clear, and that whole sequence reversed when the flag is set.
\<close>

theorem flush_sorts_triangles:
  "(\<forall>l r. triangle_less l r = lex_less (key9 l) (key9 r)) \<and>
   ((\<forall>t\<in>set (triangles s). triangle_ordinary t) \<and> triangles s \<noteq> [] \<and> SDL (sorted_batch s) = 0 \<longrightarrow>
      flush SDL s =
        Inr (length (triangles s),
             s\<lparr>triangles := [], drawCalls := drawCalls s @ [sorted_batch s]\<rparr>) \<and>
      sorted_batch s =
        (if reverseSortTriangles s then rev (ascending_batch s) else ascending_batch s) \<and>
      mset (ascending_batch s) = mset (map sortVertices (triangles s)) \<and>
      sorted_wrt (\<lambda>l r. lex_le (key9 l) (key9 r)) (ascending_batch s))"
  using flush_nonempty [of s SDL] sorted_batch_ascending [of s] mset_ascending_batch [of s]
    sorted_ascending_batch [of s]
  by (simp add: triangle_less_lex)

theorem flush_sorts_triangles_witness:
  "sorted_batch unsorted_world =
     [Triangle (screen_vertex 6 4 3 PEACH 0 0) (screen_vertex 7 4 3 PEACH 0 0)
               (screen_vertex 5 5 3 PEACH 0 0),
      Triangle (screen_vertex 10 40 8 WHITE 0 0) (screen_vertex 10 20 9 WHITE 0 0)
               (screen_vertex 30 20 9 WHITE 0 0)] \<and>
   flush (\<lambda>ts. 0) (unsorted_world\<lparr>reverseSortTriangles := True\<rparr>) =
     Inr (2, initial_world\<lparr>reverseSortTriangles := True, drawCalls :=
       [[Triangle (screen_vertex 10 40 8 WHITE 0 0) (screen_vertex 10 20 9 WHITE 0 0)
                  (screen_vertex 30 20 9 WHITE 0 0),
         Triangle (screen_vertex 6 4 3 PEACH 0 0) (screen_vertex 7 4 3 PEACH 0 0)
                  (screen_vertex 5 5 3 PEACH 0 0)]]\<rparr>)"
proof -
  let ?r = "unsorted_world\<lparr>reverseSortTriangles := True\<rparr>"
  have ne: "triangles unsorted_world \<noteq> []" "triangles ?r \<noteq> []"
    by (simp_all add: unsorted_world_def initial_world_def)
  have flag: "\<not> reverseSortTriangles unsorted_world" "reverseSortTriangles ?r"
    by (simp_all add: unsorted_world_def initial_world_def)
  have ord: "\<forall>t\<in>set (triangles ?r). triangle_ordinary t"
    using unsorted_world_ordinary by simp
  have asc: "ascending_batch ?r = ascending_batch unsorted_world"
    by (simp add: ascending_batch_def)
  show ?thesis
    using flush_sorts_triangles [of unsorted_world "\<lambda>ts. 0"] flush_sorts_triangles [of ?r "\<lambda>ts. 0"]
      unsorted_world_ordinary ord ne flag
    unfolding asc ascending_unsorted
    by (simp add: unsorted_world_def initial_world_def)
qed

text \<open>
  C1. The flush of part 008-alt returns 0 on an empty batch, with the world as it
  was and no call of the renderer (\<open>flush_empty\<close>). The flush of part 007 has no
  such guard (\<open>flush_007_empty\<close>): at the start of the program, with nothing
  submitted, it calls the renderer with no vertices, and the outcome is the
  renderer's; the flush of part 008-alt returns 0 there whatever the renderer would
  answer.
\<close>

theorem flush_007_empty_batch_reaches_renderer:
  "flush_007 (\<lambda>ts. 0) initial_world = Inr (0, initial_world\<lparr>drawCalls := [[]]\<rparr>) \<and>
   flush_007 (\<lambda>ts. - 1) initial_world = Inl (SdlError ''SDL_RenderGeometryRaw'') \<and>
   flush (\<lambda>ts. - 1) initial_world = Inr (0, initial_world)"
  by (simp add: flush_007_def flush_def sdlError_def initial_world_def)


end
